theory Spec2Isabelle
  imports Complex_Main "HOL-Library.Word" "HOL-Library.AList" "HOL-Library.Sublist"
begin

section \<open>JavaScript values used by the toy bank (src/script.js)\<close>

text \<open>
  A JavaScript string is a sequence of UTF-16 code units. String literals of the script
  are ASCII and are written through \<open>js\<close>.
\<close>

type_synonym jsstring = "16 word list"

definition js :: "string \<Rightarrow> jsstring" where
  "js s = map of_char s"

text \<open>
  A JavaScript number as \<open>parseFloat\<close> can return it: not-a-number, the two
  infinities, or a finite value. Finite values are exact rationals here: the rounding of
  IEEE doubles is not part of the model.
\<close>

datatype jsnum = NaN | NegInf | PosInf | Fin (fin: rat)

text \<open>The exceptions the script can raise; none of them is caught anywhere in it.\<close>

datatype error = SyntaxError | InvalidCharacterError | TypeError

text \<open>\<open>a < b\<close> on numbers: false as soon as one side is NaN.\<close>

fun js_lt :: "jsnum \<Rightarrow> jsnum \<Rightarrow> bool" where
  "js_lt NaN b = False"
| "js_lt a NaN = False"
| "js_lt (Fin a) (Fin b) = (a < b)"
| "js_lt a NegInf = False"
| "js_lt NegInf b = True"
| "js_lt PosInf b = False"
| "js_lt a PosInf = True"

text \<open>\<open>a <= b\<close> is \<open>!(b < a)\<close> unless one side is NaN, when it is false.\<close>

definition js_le :: "jsnum \<Rightarrow> jsnum \<Rightarrow> bool" where
  "js_le a b = (a \<noteq> NaN \<and> b \<noteq> NaN \<and> \<not> js_lt b a)"

definition isNaN :: "jsnum \<Rightarrow> bool" where
  "isNaN a = (a = NaN)"

subsection \<open>\<open>btoa\<close>: base64 of a Latin-1 string\<close>

definition b64chars :: string where
  "b64chars = ''ABCDEFGHIJKLMNOPQRSTUVWXYZabcdefghijklmnopqrstuvwxyz0123456789+/''"

definition b64 :: "nat \<Rightarrow> 16 word" where
  "b64 i = of_char (b64chars ! i)"

definition pad :: "16 word" where
  "pad = of_char CHR ''=''"

fun base64 :: "nat list \<Rightarrow> jsstring" where
  "base64 [] = []"
| "base64 [a] = [b64 (a div 4), b64 (a mod 4 * 16), pad, pad]"
| "base64 [a, b] =
     [b64 (a div 4), b64 (a mod 4 * 16 + b div 16), b64 (b mod 16 * 4), pad]"
| "base64 (a # b # c # rest) =
     [b64 (a div 4), b64 (a mod 4 * 16 + b div 16), b64 (b mod 16 * 4 + c div 64),
      b64 (c mod 64)] @ base64 rest"

text \<open>
  \<open>btoa\<close> throws InvalidCharacterError when the string has a code unit above 255.
\<close>

definition btoa :: "jsstring \<Rightarrow> error + jsstring" where
  "btoa s = (if list_ex (\<lambda>c. 255 < c) s then Inl InvalidCharacterError
             else Inr (base64 (map unat s)))"

section \<open>Data model\<close>

record transaction =
  type :: jsstring
  amount :: rat
  date :: jsstring
  desc :: jsstring

record user =
  password :: jsstring
  balance :: rat
  transactions :: "transaction list"

text \<open>
  The users object: its own properties in insertion order. Keys are distinct in every
  object JavaScript builds.
\<close>

type_synonym users = "(jsstring \<times> user) list"

text \<open>
  The users object is an ordinary object, so \<open>users[name]\<close> also finds what
  \<open>Object.prototype\<close> provides under these names (functions, and the prototype
  itself under \<open>__proto__\<close>): all of them truthy, none with a \<open>password\<close>,
  \<open>balance\<close> or \<open>transactions\<close> property.
\<close>

definition Object_prototype :: "jsstring list" where
  "Object_prototype = map js
     [''constructor'', ''__defineGetter__'', ''__defineSetter__'', ''hasOwnProperty'',
      ''__lookupGetter__'', ''__lookupSetter__'', ''isPrototypeOf'',
      ''propertyIsEnumerable'', ''toString'', ''valueOf'', ''__proto__'',
      ''toLocaleString'']"

datatype property = Undefined | Own user | Inherited

definition lookup :: "users \<Rightarrow> jsstring \<Rightarrow> property" where
  "lookup us name =
     (case map_of us name of
        Some u \<Rightarrow> Own u
      | None \<Rightarrow> if name \<in> set Object_prototype then Inherited else Undefined)"

subsection \<open>localStorage\<close>

text \<open>
  An item of localStorage is a string. The model keeps it decoded: \<open>Encoded v\<close> is the
  string \<open>JSON.stringify(v)\<close>, which \<open>JSON.parse\<close> maps back to \<open>v\<close>;
  \<open>Unparseable s\<close> is a string \<open>s\<close> outside the JSON grammar, on which
  \<open>JSON.parse\<close> throws SyntaxError (the empty string is one). A key that is not set
  is \<open>None\<close>: \<open>getItem\<close> returns null.
\<close>

datatype 'a item = Unparseable jsstring | Encoded 'a

record localStorage =
  bank_users :: "users item option"
  bank_session :: "jsstring item option"

text \<open>
  \<open>JSON.parse(localStorage.getItem(USERS_KEY) || '{}')\<close>: null and the empty string
  are falsy, so both read as the empty object.
\<close>

definition getUsers :: "localStorage \<Rightarrow> error + users" where
  "getUsers ls =
     (case bank_users ls of
        None \<Rightarrow> Inr []
      | Some (Unparseable s) \<Rightarrow> if s = [] then Inr [] else Inl SyntaxError
      | Some (Encoded us) \<Rightarrow> Inr us)"

definition setUsers :: "users \<Rightarrow> localStorage \<Rightarrow> localStorage" where
  "setUsers us ls = ls\<lparr>bank_users := Some (Encoded us)\<rparr>"

text \<open>\<open>JSON.parse(localStorage.getItem(SESSION_KEY) || 'null')\<close>; \<open>None\<close> is null.\<close>

definition getSession :: "localStorage \<Rightarrow> error + jsstring option" where
  "getSession ls =
     (case bank_session ls of
        None \<Rightarrow> Inr None
      | Some (Unparseable s) \<Rightarrow> if s = [] then Inr None else Inl SyntaxError
      | Some (Encoded name) \<Rightarrow> Inr (Some name))"

definition setSession :: "jsstring \<Rightarrow> localStorage \<Rightarrow> localStorage" where
  "setSession name ls = ls\<lparr>bank_session := Some (Encoded name)\<rparr>"

definition clearSession :: "localStorage \<Rightarrow> localStorage" where
  "clearSession ls = ls\<lparr>bank_session := None\<rparr>"

section \<open>The handlers\<close>

text \<open>
  What a handler run ends in: an exception nobody catches, a message written into the
  page's error element, or its normal end (a navigation, a reload, a rendered list).
\<close>

datatype 'a outcome = Uncaught error | Message string | Done 'a

subsection \<open>Registration\<close>

text \<open>
  \<open>registerForm.onsubmit\<close>. The arguments are the handler's constants
  \<open>username\<close> (trimmed), \<open>password\<close> and \<open>confirm\<close>, the string
  \<open>new Date().toLocaleString()\<close> and the value of \<open>Math.random()\<close>, which lies
  in \<open>[0, 1)\<close>. \<open>Done\<close> carries the new \<open>window.location\<close>.
\<close>

definition registerForm_onsubmit ::
  "jsstring \<Rightarrow> rat \<Rightarrow> jsstring \<Rightarrow> jsstring \<Rightarrow> jsstring \<Rightarrow> localStorage
     \<Rightarrow> string outcome \<times> localStorage" where
  "registerForm_onsubmit now random username pass confirm ls =
     (if pass \<noteq> confirm then (Message ''Passwords do not match.'', ls)
      else (case getUsers ls of
        Inl e \<Rightarrow> (Uncaught e, ls)
      | Inr us \<Rightarrow>
          if lookup us username \<noteq> Undefined
          then (Message ''Username already exists.'', ls)
          else (case btoa pass of
            Inl e \<Rightarrow> (Uncaught e, ls)
          | Inr enc \<Rightarrow>
              (Done ''dashboard.html'',
               setSession username
                 (setUsers
                    (AList.update username
                       \<lparr>password = enc,
                        balance = 1000 + of_int \<lfloor>random * 9000\<rfloor>,
                        transactions =
                          [\<lparr>type = js ''credit'', amount = 1000, date = now,
                            desc = js ''Initial deposit''\<rparr>]\<rparr>
                       us)
                    ls)))))"

subsection \<open>Login\<close>

text \<open>
  \<open>loginForm.onsubmit\<close>. \<open>||\<close> evaluates \<open>btoa(password)\<close> only when
  \<open>users[username]\<close> is truthy. What the prototype provides has no \<open>password\<close>
  property, and \<open>undefined\<close> differs from every string.
\<close>

definition loginForm_onsubmit ::
  "jsstring \<Rightarrow> jsstring \<Rightarrow> localStorage \<Rightarrow> string outcome \<times> localStorage" where
  "loginForm_onsubmit username pass ls =
     (case getUsers ls of
        Inl e \<Rightarrow> (Uncaught e, ls)
      | Inr us \<Rightarrow>
          (case lookup us username of
             Undefined \<Rightarrow> (Message ''Invalid username or password.'', ls)
           | Inherited \<Rightarrow>
               (case btoa pass of
                  Inl e \<Rightarrow> (Uncaught e, ls)
                | Inr enc \<Rightarrow> (Message ''Invalid username or password.'', ls))
           | Own u \<Rightarrow>
               (case btoa pass of
                  Inl e \<Rightarrow> (Uncaught e, ls)
                | Inr enc \<Rightarrow>
                    if password u \<noteq> enc
                    then (Message ''Invalid username or password.'', ls)
                    else (Done ''dashboard.html'', setSession username ls))))"

subsection \<open>Dashboard\<close>

text \<open>
  The dashboard script keeps \<open>session\<close> and \<open>users\<close> for its handlers: the
  users object is read once, when the page loads, and the transfer handler works on that
  object.
\<close>

record dashboard =
  session :: jsstring
  users :: users

text \<open>
  One line of the transaction list: the date, the sign (\<open>+\<close> for a credit,
  \<open>-\<close> otherwise), the amount and the description.
\<close>

definition li :: "transaction \<Rightarrow> jsstring \<times> char \<times> rat \<times> jsstring" where
  "li tx = (date tx, if type tx = js ''credit'' then CHR ''+'' else CHR ''-'', amount tx,
            desc tx)"

text \<open>
  What the loaded page shows: the user name, the balance and the lines of
  \<open>transactions.slice().reverse()\<close>, a reversed copy.
\<close>

record rendering =
  user_name :: jsstring
  account_balance :: rat
  transaction_list :: "(jsstring \<times> char \<times> rat \<times> jsstring) list"

text \<open>
  Loading dashboard.html. Without a session (null or the empty string, both falsy) the
  page goes to index.html: \<open>Done (Inl ''index.html'')\<close>. Otherwise
  \<open>users[session].balance\<close> throws TypeError when \<open>users[session]\<close> is
  undefined, and \<open>users[session].transactions.slice()\<close> throws it when
  \<open>users[session]\<close> comes from the prototype. localStorage is only read.
\<close>

definition dashboard_load ::
  "localStorage \<Rightarrow> (string + rendering \<times> dashboard) outcome" where
  "dashboard_load ls =
     (case getSession ls of
        Inl e \<Rightarrow> Uncaught e
      | Inr None \<Rightarrow> Done (Inl ''index.html'')
      | Inr (Some name) \<Rightarrow>
          if name = [] then Done (Inl ''index.html'')
          else (case getUsers ls of
            Inl e \<Rightarrow> Uncaught e
          | Inr us \<Rightarrow>
              (case lookup us name of
                 Undefined \<Rightarrow> Uncaught TypeError
               | Inherited \<Rightarrow> Uncaught TypeError
               | Own u \<Rightarrow>
                   Done (Inr (\<lparr>user_name = name, account_balance = balance u,
                               transaction_list = map li (rev (transactions u))\<rparr>,
                              \<lparr>session = name, users = us\<rparr>)))))"

text \<open>The logout button: \<open>clearSession()\<close>, then index.html.\<close>

definition logout_btn_onclick :: "localStorage \<Rightarrow> string outcome \<times> localStorage" where
  "logout_btn_onclick ls = (Done ''index.html'', clearSession ls)"

subsection \<open>Transfer\<close>

text \<open>
  The four checks of \<open>transferForm.onsubmit\<close>, on the handler's constants \<open>to\<close>
  (trimmed) and \<open>amount\<close> (the result of \<open>parseFloat\<close>). The script reads
  \<open>users[session].balance\<close> without a test: the handler is installed only after the
  page load has read \<open>users[session].transactions\<close>, so \<open>session\<close> is a key
  of \<open>users\<close> whenever it runs, and the handler adds and removes no key. For a
  state with another session, which no page load gives, the model stops at that read with
  TypeError.
\<close>

definition recipient_not_found :: "dashboard \<Rightarrow> jsstring \<Rightarrow> bool" where
  "recipient_not_found d to = (lookup (users d) to = Undefined)"

definition self_transfer :: "dashboard \<Rightarrow> jsstring \<Rightarrow> bool" where
  "self_transfer d to = (to = session d)"

definition invalid_amount :: "jsnum \<Rightarrow> bool" where
  "invalid_amount amt = (js_le amt (Fin 0) \<or> isNaN amt)"

definition insufficient_funds :: "user \<Rightarrow> jsnum \<Rightarrow> bool" where
  "insufficient_funds sender amt = js_lt (Fin (balance sender)) amt"

text \<open>
  The mutations of lines 113 to 117, each on the record that \<open>users[name]\<close> is when
  \<open>name\<close> is a key; under a name of the prototype, \<open>balance += amount\<close> sets a
  property of a built-in object and leaves the users object as it is.
\<close>

definition add_balance :: "jsstring \<Rightarrow> rat \<Rightarrow> users \<Rightarrow> users" where
  "add_balance name x us = AList.map_entry name (\<lambda>u. u\<lparr>balance := balance u + x\<rparr>) us"

definition push :: "jsstring \<Rightarrow> transaction \<Rightarrow> users \<Rightarrow> users" where
  "push name tx us =
     AList.map_entry name (\<lambda>u. u\<lparr>transactions := transactions u @ [tx]\<rparr>) us"

text \<open>
  \<open>transferForm.onsubmit\<close>, with \<open>now\<close> the string
  \<open>new Date().toLocaleString()\<close>. \<open>Done ()\<close> is \<open>window.location.reload()\<close>.
  After the checks the amount is finite and positive. When \<open>users[to]\<close> comes from
  the prototype it has no \<open>transactions\<close>, and line 117 throws TypeError: the sender's
  record of the page is already changed then, and \<open>setUsers\<close> is not reached.
\<close>

definition transferForm_onsubmit ::
  "jsstring \<Rightarrow> jsstring \<Rightarrow> jsnum \<Rightarrow> dashboard \<Rightarrow> localStorage
     \<Rightarrow> unit outcome \<times> dashboard \<times> localStorage" where
  "transferForm_onsubmit now to amt d ls =
     (if recipient_not_found d to then (Message ''Recipient not found.'', d, ls)
      else if self_transfer d to then (Message ''Cannot transfer to yourself.'', d, ls)
      else if invalid_amount amt then (Message ''Invalid amount.'', d, ls)
      else (case lookup (users d) (session d) of
        Undefined \<Rightarrow> (Uncaught TypeError, d, ls)
      | Inherited \<Rightarrow> (Uncaught TypeError, d, ls)
      | Own sender \<Rightarrow>
          if insufficient_funds sender amt then (Message ''Insufficient funds.'', d, ls)
          else
            (let us1 = add_balance (session d) (- fin amt) (users d);
                 us2 = add_balance to (fin amt) us1;
                 us3 = push (session d)
                         \<lparr>type = js ''debit'', amount = fin amt, date = now,
                          desc = js ''Transfer to '' @ to\<rparr> us2
             in (case lookup us3 to of
                   Own recipient \<Rightarrow>
                     (let us4 = push to
                                  \<lparr>type = js ''credit'', amount = fin amt, date = now,
                                   desc = js ''Transfer from '' @ session d\<rparr> us3
                      in (Done (), d\<lparr>users := us4\<rparr>, setUsers us4 ls))
                 | Inherited \<Rightarrow> (Uncaught TypeError, d\<lparr>users := us3\<rparr>, ls)
                 | Undefined \<Rightarrow> (Uncaught TypeError, d\<lparr>users := us3\<rparr>, ls)))))"

text \<open>
  A run of transfers on the dashboard, each with its date string: after a transfer that
  ends in the reload the page is loaded again and reads the users object afresh; after
  any other end the page stays, with the users object the handler left.
\<close>

fun transfers ::
  "(jsstring \<times> jsstring \<times> jsnum) list \<Rightarrow> dashboard \<Rightarrow> localStorage
     \<Rightarrow> dashboard \<times> localStorage" where
  "transfers [] d ls = (d, ls)"
| "transfers ((now, to, amt) # rest) d ls =
     (case transferForm_onsubmit now to amt d ls of
        (Done u, d', ls') \<Rightarrow>
          (case dashboard_load ls' of
             Done (Inr (r, d'')) \<Rightarrow> transfers rest d'' ls'
           | Done (Inl page) \<Rightarrow> (d', ls')
           | Message m \<Rightarrow> (d', ls')
           | Uncaught e \<Rightarrow> (d', ls'))
      | (Message m, d', ls') \<Rightarrow> transfers rest d' ls'
      | (Uncaught e, d', ls') \<Rightarrow> transfers rest d' ls')"

subsection \<open>Admin panel\<close>

definition ADMIN_PASSWORD :: jsstring where
  "ADMIN_PASSWORD = js ''SuperSecretAdmin123''"

text \<open>
  \<open>adminForm.onsubmit\<close>: the list shows every key of the users object with its
  balance, here in the order of insertion (\<open>Object.keys\<close> puts keys that are
  array indices first).
\<close>

definition adminForm_onsubmit ::
  "jsstring \<Rightarrow> localStorage \<Rightarrow> (jsstring \<times> rat) list outcome \<times> localStorage" where
  "adminForm_onsubmit pass ls =
     (if pass \<noteq> ADMIN_PASSWORD then (Message ''Incorrect admin password.'', ls)
      else (case getUsers ls of
        Inl e \<Rightarrow> (Uncaught e, ls)
      | Inr us \<Rightarrow> (Done (map (\<lambda>(name, u). (name, balance u)) us), ls)))"

text \<open>
  A transfer passes the checks when none of the four tests of the handler stops it.
\<close>

definition passes_checks :: "dashboard \<Rightarrow> jsstring \<Rightarrow> jsnum \<Rightarrow> bool" where
  "passes_checks d to amt =
     (\<not> recipient_not_found d to \<and> \<not> self_transfer d to \<and> \<not> invalid_amount amt \<and>
      (case lookup (users d) (session d) of
         Own sender \<Rightarrow> \<not> insufficient_funds sender amt
       | Undefined \<Rightarrow> False
       | Inherited \<Rightarrow> False))"

section \<open>Properties of the users object\<close>

text \<open>The sum of the balances of all user records.\<close>

definition total :: "users \<Rightarrow> rat" where
  "total us = sum_list (map (\<lambda>(name, u). balance u) us)"

text \<open>
  Every record of \<open>us\<close> is still in \<open>us'\<close>, under its name, and its transactions
  are the first ones of the list there: nothing was removed or reordered.
\<close>

definition append_only :: "users \<Rightarrow> users \<Rightarrow> bool" where
  "append_only us us' =
     list_all
       (\<lambda>name. case (map_of us name, map_of us' name) of
                  (None, x) \<Rightarrow> True
                | (Some u, None) \<Rightarrow> False
                | (Some u, Some u') \<Rightarrow> prefix (transactions u) (transactions u'))
       (map fst us)"

section \<open>Sample states\<close>

definition deposit :: "jsstring \<Rightarrow> transaction" where
  "deposit now = \<lparr>type = js ''credit'', amount = 1000, date = now,
                  desc = js ''Initial deposit''\<rparr>"

definition sample_users :: users where
  "sample_users =
     [(js ''alice'', \<lparr>password = js ''cHc='', balance = 1000,
                      transactions = [deposit (js ''1/1/2026, 9:00:00 AM'')]\<rparr>),
      (js ''bob'', \<lparr>password = js ''cHc='', balance = 2000,
                    transactions = [deposit (js ''1/2/2026, 9:00:00 AM'')]\<rparr>)]"

definition sample_storage :: localStorage where
  "sample_storage = \<lparr>bank_users = Some (Encoded sample_users),
                      bank_session = Some (Encoded (js ''alice''))\<rparr>"

definition sample_dashboard :: dashboard where
  "sample_dashboard = \<lparr>session = js ''alice'', users = sample_users\<rparr>"

definition empty_storage :: localStorage where
  "empty_storage = \<lparr>bank_users = None, bank_session = None\<rparr>"

definition corrupt_storage :: localStorage where
  "corrupt_storage = \<lparr>bank_users = Some (Unparseable (js ''{oops'')), bank_session = None\<rparr>"

definition corrupt_session :: localStorage where
  "corrupt_session = \<lparr>bank_users = Some (Unparseable (js ''{oops'')),
                       bank_session = Some (Encoded (js ''alice''))\<rparr>"

definition blank_storage :: localStorage where
  "blank_storage = \<lparr>bank_users = Some (Unparseable []), bank_session = None\<rparr>"

section \<open>Basic facts\<close>

lemmas storage_simps = getUsers_def setUsers_def getSession_def setSession_def clearSession_def

lemmas sample_simps = js_def Object_prototype_def btoa_def b64_def b64chars_def pad_def
  lookup_def sample_users_def sample_storage_def sample_dashboard_def empty_storage_def
  corrupt_storage_def deposit_def

lemma getUsers_setUsers: "getUsers (setUsers us ls) = Inr us"
  by (simp add: getUsers_def setUsers_def)

lemma getUsers_setSession: "getUsers (setSession name ls) = getUsers ls"
  by (simp add: getUsers_def setSession_def)

lemma getSession_setSession: "getSession (setSession name ls) = Inr (Some name)"
  by (simp add: getSession_def setSession_def)

lemma lookup_Some: "map_of us name = Some u \<Longrightarrow> lookup us name = Own u"
  by (simp add: lookup_def)

lemma lookup_Own_iff: "lookup us name = Own u \<longleftrightarrow> map_of us name = Some u"
  by (simp add: lookup_def split: option.splits)

lemma lookup_Undefined_None: "lookup us name = Undefined \<Longrightarrow> map_of us name = None"
  by (simp add: lookup_def split: option.splits)

lemma lookup_update_same: "lookup (AList.update name u us) name = Own u"
  by (simp add: lookup_def update_conv')

lemma btoa_pw: "btoa (js ''pw'') = Inr (js ''cHc='')"
  by (simp add: btoa_def js_def b64_def b64chars_def pad_def)

text \<open>The only way a registration ends in the navigation to the dashboard.\<close>

lemma register_Done:
  "registerForm_onsubmit now random username pass confirm ls = (Done page, ls') \<Longrightarrow>
   \<exists>us enc. pass = confirm \<and> getUsers ls = Inr us \<and> lookup us username = Undefined \<and>
     btoa pass = Inr enc \<and> page = ''dashboard.html'' \<and>
     ls' = setSession username (setUsers (AList.update username
             \<lparr>password = enc, balance = 1000 + of_int \<lfloor>random * 9000\<rfloor>,
              transactions = [\<lparr>type = js ''credit'', amount = 1000, date = now,
                               desc = js ''Initial deposit''\<rparr>]\<rparr> us) ls)"
  by (auto simp add: registerForm_onsubmit_def split: if_splits sum.splits)

lemma random_balance:
  assumes "0 \<le> random" and "random < 1"
  shows "1000 \<le> 1000 + rat_of_int \<lfloor>random * 9000\<rfloor>"
    and "1000 + rat_of_int \<lfloor>random * 9000\<rfloor> \<le> 9999"
proof -
  from assms have "0 \<le> \<lfloor>random * 9000\<rfloor>"
    by simp
  then show "1000 \<le> 1000 + rat_of_int \<lfloor>random * 9000\<rfloor>"
    by simp
  from assms have "random * 9000 < 9000"
    by simp
  then have "\<lfloor>random * 9000\<rfloor> < 9000"
    by (simp add: floor_less_iff)
  then have "\<lfloor>random * 9000\<rfloor> \<le> 8999"
    by simp
  then have "rat_of_int \<lfloor>random * 9000\<rfloor> \<le> rat_of_int 8999"
    by (simp only: of_int_le_iff)
  then show "1000 + rat_of_int \<lfloor>random * 9000\<rfloor> \<le> 9999"
    by simp
qed

text \<open>
  What every successful registration stores: a balance between 1000 and 9999, and one
  transaction, a credit of 1000.
\<close>

lemma register_stores:
  assumes "0 \<le> random" and "random < 1"
    and "registerForm_onsubmit now random username pass confirm ls = (Done page, ls')"
  shows "\<exists>us' u. getUsers ls' = Inr us' \<and> map_of us' username = Some u \<and>
           1000 \<le> balance u \<and> balance u \<le> 9999 \<and>
           transactions u = [\<lparr>type = js ''credit'', amount = 1000, date = now,
                               desc = js ''Initial deposit''\<rparr>] \<and>
           getSession ls' = Inr (Some username)"
proof -
  from register_Done [OF assms(3)] obtain us enc where
    ls': "ls' = setSession username (setUsers (AList.update username
             \<lparr>password = enc, balance = 1000 + of_int \<lfloor>random * 9000\<rfloor>,
              transactions = [\<lparr>type = js ''credit'', amount = 1000, date = now,
                               desc = js ''Initial deposit''\<rparr>]\<rparr> us) ls)"
    by blast
  show ?thesis
    using random_balance [OF assms(1,2)]
    by (simp add: ls' getUsers_setSession getUsers_setUsers getSession_setSession
        update_conv')
qed

subsection \<open>The amount after the checks, and the mutations\<close>

lemma invalid_amount_iff:
  "invalid_amount amt \<longleftrightarrow> amt = NaN \<or> amt = NegInf \<or> (\<exists>a. amt = Fin a \<and> a \<le> 0)"
  by (cases amt) (auto simp add: invalid_amount_def js_le_def isNaN_def)

lemma checked_amount:
  assumes "\<not> invalid_amount amt" and "\<not> insufficient_funds sender amt"
  shows "amt = Fin (fin amt) \<and> 0 < fin amt \<and> fin amt \<le> balance sender"
  using assms
  by (cases amt) (auto simp add: invalid_amount_def insufficient_funds_def js_le_def isNaN_def)

lemma map_fst_map_entry: "map fst (AList.map_entry k f us) = map fst us"
  by (induction us) auto

lemma map_of_add_balance:
  "map_of (add_balance k x us) =
     (map_of us)(k := map_option (\<lambda>u. u\<lparr>balance := balance u + x\<rparr>) (map_of us k))"
  by (simp add: add_balance_def map_of_map_entry map_option_case)

lemma map_of_push:
  "map_of (push k tx us) =
     (map_of us)(k := map_option (\<lambda>u. u\<lparr>transactions := transactions u @ [tx]\<rparr>) (map_of us k))"
  by (simp add: push_def map_of_map_entry map_option_case)

lemma total_map_entry:
  "map_of us k = Some u \<Longrightarrow>
   total (AList.map_entry k f us) = total us - balance u + balance (f u)"
  by (induction us) (auto simp add: total_def)

lemma total_map_entry_None:
  "map_of us k = None \<Longrightarrow> total (AList.map_entry k f us) = total us"
  by (induction us) (auto simp add: total_def)

lemma total_add_balance:
  "map_of us k = Some u \<Longrightarrow> total (add_balance k x us) = total us + x"
  by (simp add: add_balance_def total_map_entry)

lemma total_push: "total (push k tx us) = total us"
proof (cases "map_of us k")
  case None
  then show ?thesis by (simp add: push_def total_map_entry_None)
next
  case (Some u)
  then show ?thesis by (simp add: push_def total_map_entry)
qed

text \<open>
  A transfer to a user of the users object that passes the checks: the handler ends in the
  reload, the sender's record loses the amount and gains a debit, the recipient's record
  gains the amount and a credit with the same date string, every other record and the
  order of the keys stay, the sum of the balances stays, and the object is what
  \<open>setUsers\<close> writes.
\<close>

lemma transfer_stored_recipient:
  assumes s: "map_of (users d) (session d) = Some sender"
    and r: "map_of (users d) to = Some recipient"
    and ne: "to \<noteq> session d"
    and v: "\<not> invalid_amount amt"
    and f: "\<not> insufficient_funds sender amt"
  shows "\<exists>us'. transferForm_onsubmit now to amt d ls = (Done (), d\<lparr>users := us'\<rparr>, setUsers us' ls) \<and>
     map_of us' = (map_of (users d))
       (session d \<mapsto> sender\<lparr>balance := balance sender - fin amt,
            transactions := transactions sender @
              [\<lparr>type = js ''debit'', amount = fin amt, date = now,
                desc = js ''Transfer to '' @ to\<rparr>]\<rparr>,
        to \<mapsto> recipient\<lparr>balance := balance recipient + fin amt,
            transactions := transactions recipient @
              [\<lparr>type = js ''credit'', amount = fin amt, date = now,
                desc = js ''Transfer from '' @ session d\<rparr>]\<rparr>) \<and>
     map fst us' = map fst (users d) \<and> total us' = total (users d)"
proof -
  let ?debit = "\<lparr>type = js ''debit'', amount = fin amt, date = now,
                desc = js ''Transfer to '' @ to\<rparr>"
  let ?credit = "\<lparr>type = js ''credit'', amount = fin amt, date = now,
                desc = js ''Transfer from '' @ session d\<rparr>"
  let ?us1 = "add_balance (session d) (- fin amt) (users d)"
  let ?us2 = "add_balance to (fin amt) ?us1"
  let ?us3 = "push (session d) ?debit ?us2"
  let ?us4 = "push to ?credit ?us3"
  have m3: "map_of ?us3 to = Some (recipient\<lparr>balance := balance recipient + fin amt\<rparr>)"
    using r ne by (simp add: map_of_push map_of_add_balance)
  have run: "transferForm_onsubmit now to amt d ls = (Done (), d\<lparr>users := ?us4\<rparr>, setUsers ?us4 ls)"
    using s r ne v f m3
    by (simp add: transferForm_onsubmit_def recipient_not_found_def self_transfer_def
        lookup_Some Let_def)
  have m4: "map_of ?us4 = (map_of (users d))
       (session d \<mapsto> sender\<lparr>balance := balance sender - fin amt,
            transactions := transactions sender @ [?debit]\<rparr>,
        to \<mapsto> recipient\<lparr>balance := balance recipient + fin amt,
            transactions := transactions recipient @ [?credit]\<rparr>)"
    using s r ne by (auto simp add: map_of_push map_of_add_balance fun_eq_iff)
  have k: "map fst ?us4 = map fst (users d)"
    by (simp add: push_def add_balance_def map_fst_map_entry)
  have m1: "map_of ?us1 to = Some recipient"
    using r ne by (simp add: map_of_add_balance)
  have t: "total ?us4 = total (users d)"
    using s m1 by (simp add: total_push total_add_balance)
  show ?thesis
    using run m4 k t by blast
qed


subsection \<open>Transactions are only appended\<close>

lemma append_only_iff:
  "append_only us us' \<longleftrightarrow>
     (\<forall>name u. map_of us name = Some u \<longrightarrow>
        (\<exists>u'. map_of us' name = Some u' \<and> prefix (transactions u) (transactions u')))"
proof
  assume a: "append_only us us'"
  show "\<forall>name u. map_of us name = Some u \<longrightarrow>
        (\<exists>u'. map_of us' name = Some u' \<and> prefix (transactions u) (transactions u'))"
  proof (intro allI impI)
    fix name u
    assume m: "map_of us name = Some u"
    then have "name \<in> set (map fst us)"
      by (metis map_of_eq_None_iff option.distinct(1) set_map)
    with a have "case (map_of us name, map_of us' name) of
                  (None, x) \<Rightarrow> True
                | (Some u, None) \<Rightarrow> False
                | (Some u, Some u') \<Rightarrow> prefix (transactions u) (transactions u')"
      unfolding append_only_def list_all_iff by blast
    with m show "\<exists>u'. map_of us' name = Some u' \<and> prefix (transactions u) (transactions u')"
      by (cases "map_of us' name") simp_all
  qed
next
  assume "\<forall>name u. map_of us name = Some u \<longrightarrow>
        (\<exists>u'. map_of us' name = Some u' \<and> prefix (transactions u) (transactions u'))"
  then show "append_only us us'"
    by (fastforce simp add: append_only_def list_all_iff split: option.splits)
qed

lemma append_only_refl: "append_only us us"
  by (simp add: append_only_iff)

lemma append_only_trans:
  "append_only us us' \<Longrightarrow> append_only us' us'' \<Longrightarrow> append_only us us''"
  unfolding append_only_iff by (meson prefix_order.trans)

lemma append_only_map_entry:
  assumes "\<And>u. prefix (transactions u) (transactions (f u))"
  shows "append_only us (AList.map_entry k f us)"
  using assms by (auto simp add: append_only_iff map_of_map_entry)

lemma append_only_add_balance: "append_only us (add_balance k x us)"
  by (simp add: add_balance_def append_only_map_entry)

lemma append_only_push: "append_only us (push k tx us)"
  by (simp add: push_def append_only_map_entry)

lemma append_only_update:
  "map_of us k = None \<Longrightarrow> append_only us (AList.update k v us)"
  by (auto simp add: append_only_iff update_conv')

lemma transfer_users_cases:
  "users (fst (snd (transferForm_onsubmit now to amt d ls))) = users d \<or>
   (\<exists>tx. users (fst (snd (transferForm_onsubmit now to amt d ls))) =
      push (session d) tx (add_balance to (fin amt)
        (add_balance (session d) (- fin amt) (users d)))) \<or>
   (\<exists>tx tx'. users (fst (snd (transferForm_onsubmit now to amt d ls))) =
      push to tx' (push (session d) tx (add_balance to (fin amt)
        (add_balance (session d) (- fin amt) (users d)))))"
  by (simp add: transferForm_onsubmit_def Let_def split: property.splits) blast

lemma transfer_append_only:
  "append_only (users d) (users (fst (snd (transferForm_onsubmit now to amt d ls))))"
proof -
  have 1: "append_only (users d) (add_balance to (fin amt)
        (add_balance (session d) (- fin amt) (users d)))"
    by (meson append_only_add_balance append_only_trans)
  have 2: "append_only (users d) (push (session d) tx (add_balance to (fin amt)
        (add_balance (session d) (- fin amt) (users d))))" for tx
    using 1 by (meson append_only_push append_only_trans)
  have 3: "append_only (users d) (push to tx' (push (session d) tx (add_balance to (fin amt)
        (add_balance (session d) (- fin amt) (users d)))))" for tx tx'
    using 2 by (meson append_only_push append_only_trans)
  from transfer_users_cases [of now to amt d ls] show ?thesis
    using 2 3 by (auto simp add: append_only_refl)
qed

lemma transfer_storage_cases:
  "snd (snd (transferForm_onsubmit now to amt d ls)) = ls \<or>
   snd (snd (transferForm_onsubmit now to amt d ls)) =
     setUsers (users (fst (snd (transferForm_onsubmit now to amt d ls)))) ls"
  by (simp add: transferForm_onsubmit_def Let_def split: property.splits)

subsection \<open>What the handlers leave in localStorage and in the page\<close>

lemma register_storage_cases:
  "getUsers ls = Inr us \<Longrightarrow>
   snd (registerForm_onsubmit now random username pass confirm ls) = ls \<or>
   (\<exists>v. map_of us username = None \<and>
      snd (registerForm_onsubmit now random username pass confirm ls) =
        setSession username (setUsers (AList.update username v us) ls))"
  by (auto simp add: registerForm_onsubmit_def lookup_Undefined_None split: sum.splits)

lemma login_storage_cases:
  "snd (loginForm_onsubmit username pass ls) = ls \<or>
   snd (loginForm_onsubmit username pass ls) = setSession username ls"
  by (simp add: loginForm_onsubmit_def split: sum.splits property.splits)

lemma dashboard_load_Done:
  "dashboard_load ls = Done (Inr (r, d)) \<Longrightarrow>
   \<exists>u. getUsers ls = Inr (users d) \<and> getSession ls = Inr (Some (session d)) \<and>
       session d \<noteq> [] \<and> map_of (users d) (session d) = Some u \<and>
       r = \<lparr>user_name = session d, account_balance = balance u,
            transaction_list = map li (rev (transactions u))\<rparr>"
  by (auto simp add: dashboard_load_def lookup_Own_iff
      split: sum.splits option.splits if_splits property.splits)

lemmas transfer_simps = transferForm_onsubmit_def recipient_not_found_def self_transfer_def
  invalid_amount_def insufficient_funds_def js_le_def isNaN_def add_balance_def push_def
  passes_checks_def Let_def

text \<open>
  Transfers from a loaded dashboard to recipients that are keys of the users object, or
  that are not found at all: each is refused with a message or ends in the reload, and the
  sum of the stored balances stays what it was.
\<close>

lemma lookup_Inherited_iff:
  "lookup us name = Inherited \<longleftrightarrow> name \<notin> set (map fst us) \<and> name \<in> set Object_prototype"
proof (cases "map_of us name")
  case None
  then have "name \<notin> fst ` set us"
    by (simp add: map_of_eq_None_iff)
  with None show ?thesis
    by (simp add: lookup_def)
next
  case (Some u)
  then have "name \<in> fst ` set us"
    by (metis map_of_eq_None_iff option.distinct(1))
  with Some show ?thesis
    by (simp add: lookup_def)
qed

lemma transfer_outcome:
  assumes "map_of (users d) (session d) = Some sender"
    and "lookup (users d) to \<noteq> Inherited"
  shows "(\<exists>m. transferForm_onsubmit now to amt d ls = (Message m, d, ls)) \<or>
     (\<exists>recipient. map_of (users d) to = Some recipient \<and> to \<noteq> session d \<and>
        \<not> invalid_amount amt \<and> \<not> insufficient_funds sender amt)"
proof (cases "map_of (users d) to")
  case None
  with assms have "lookup (users d) to = Undefined"
    by (simp add: lookup_def split: if_splits)
  then show ?thesis
    by (simp add: transferForm_onsubmit_def recipient_not_found_def)
next
  case (Some recipient)
  with assms show ?thesis
    by (auto simp add: transferForm_onsubmit_def self_transfer_def lookup_Some)
qed

lemma dashboard_load_users:
  assumes "getUsers ls = Inr us" and "getSession ls = Inr (Some name)" and "name \<noteq> []"
    and "map_of us name = Some u"
  shows "dashboard_load ls =
     Done (Inr (\<lparr>user_name = name, account_balance = balance u,
                  transaction_list = map li (rev (transactions u))\<rparr>,
                \<lparr>session = name, users = us\<rparr>))"
  using assms by (simp add: dashboard_load_def lookup_Some)

lemma transfers_keep_total:
  assumes "dashboard_load ls = Done (Inr (r, d))"
    and "list_all (\<lambda>(now, to, amt). lookup (users d) to \<noteq> Inherited) ts"
  shows "\<exists>us'. getUsers (snd (transfers ts d ls)) = Inr us' \<and> total us' = total (users d)"
  using assms
proof (induction ts arbitrary: r d ls)
  case Nil
  from dashboard_load_Done [OF Nil(1)] show ?case
    by auto
next
  case (Cons t ts)
  obtain now to amt where t: "t = (now, to, amt)"
    by (cases t) auto
  from dashboard_load_Done [OF Cons.prems(1)] obtain sender where
    g: "getUsers ls = Inr (users d)" and s: "getSession ls = Inr (Some (session d))"
    and n: "session d \<noteq> []" and m: "map_of (users d) (session d) = Some sender"
    by blast
  from Cons.prems(2) t have ni: "lookup (users d) to \<noteq> Inherited"
    and rest: "list_all (\<lambda>(now, to, amt). lookup (users d) to \<noteq> Inherited) ts"
    by simp_all
  from transfer_outcome [OF m ni, of now amt ls] show ?case
  proof
    assume "\<exists>msg. transferForm_onsubmit now to amt d ls = (Message msg, d, ls)"
    then obtain msg where "transferForm_onsubmit now to amt d ls = (Message msg, d, ls)" ..
    then have "transfers (t # ts) d ls = transfers ts d ls"
      by (simp add: t)
    with Cons.IH [OF Cons.prems(1) rest] show ?thesis
      by simp
  next
    assume "\<exists>recipient. map_of (users d) to = Some recipient \<and> to \<noteq> session d \<and>
        \<not> invalid_amount amt \<and> \<not> insufficient_funds sender amt"
    then obtain recipient where "map_of (users d) to = Some recipient" "to \<noteq> session d"
      "\<not> invalid_amount amt" "\<not> insufficient_funds sender amt"
      by blast
    from transfer_stored_recipient [OF m this, of now ls] obtain us' where
      run: "transferForm_onsubmit now to amt d ls = (Done (), d\<lparr>users := us'\<rparr>, setUsers us' ls)"
      and m': "map_of us' (session d) \<noteq> None"
      and k: "map fst us' = map fst (users d)" and tot: "total us' = total (users d)"
      by auto
    from m' obtain sender' where sender': "map_of us' (session d) = Some sender'"
      by auto
    let ?d' = "\<lparr>session = session d, users = us'\<rparr>"
    have s': "getSession (setUsers us' ls) = Inr (Some (session d))"
      using s by (simp add: getSession_def setUsers_def)
    have load: "dashboard_load (setUsers us' ls) =
      Done (Inr (\<lparr>user_name = session d, account_balance = balance sender',
                   transaction_list = map li (rev (transactions sender'))\<rparr>, ?d'))"
      by (rule dashboard_load_users [OF getUsers_setUsers s' n sender'])
    have rest': "list_all (\<lambda>(now, to, amt). lookup (users ?d') to \<noteq> Inherited) ts"
      using rest k by (simp add: lookup_Inherited_iff)
    from run load have "transfers (t # ts) d ls = transfers ts ?d' (setUsers us' ls)"
      by (simp add: t)
    with Cons.IH [OF load rest'] tot show ?thesis
      by simp
  qed
qed

subsection \<open>The sample states\<close>

lemma sample_bob_known:
  "\<not> recipient_not_found sample_dashboard (js ''bob'')"
  "\<not> self_transfer sample_dashboard (js ''bob'')"
  by (simp_all add: recipient_not_found_def self_transfer_def sample_simps)

lemma btoa_Latin1: "\<not> list_ex (\<lambda>c. 255 < c) s \<Longrightarrow> \<exists>enc. btoa s = Inr enc"
  by (simp add: btoa_def)

lemma sample_facts:
  "getUsers sample_storage = Inr sample_users"
  "getSession sample_storage = Inr (Some (js ''alice''))"
  "map_of sample_users (js ''alice'') = Some (snd (hd sample_users))"
  "users sample_dashboard = sample_users"
  "session sample_dashboard = js ''alice''"
  "lookup sample_users (js ''bob'') \<noteq> Inherited"
  "\<not> list_ex (\<lambda>c. 255 < c) (js ''pw'')"
  by (simp_all add: sample_simps storage_simps)

section \<open>The claims\<close>

text \<open>
  C1: after a successful registration the balance is in [1000, 9999] and the transactions
  list holds one credit whose amount equals that balance. The script writes the constant
  1000 as the amount of the initial deposit, whatever balance it drew: with
  \<open>Math.random()\<close> giving 0.5 the balance is 5500 and the one credit is of 1000.
\<close>

theorem register_deposit_differs_from_balance:
  "registerForm_onsubmit (js ''11/1/2026, 9:00:00 AM'') (1 / 2) (js ''alice'') (js ''pw'')
     (js ''pw'') empty_storage =
   (Done ''dashboard.html'',
    \<lparr>bank_users = Some (Encoded
       [(js ''alice'',
         \<lparr>password = js ''cHc='', balance = 5500,
          transactions = [\<lparr>type = js ''credit'', amount = 1000,
                            date = js ''11/1/2026, 9:00:00 AM'',
                            desc = js ''Initial deposit''\<rparr>]\<rparr>)]),
     bank_session = Some (Encoded (js ''alice''))\<rparr>)"
  by (simp add: registerForm_onsubmit_def sample_simps storage_simps)

text \<open>
  C2: a users item that \<open>JSON.parse\<close> rejects is not read as an empty store: the
  script has no exception handling, and \<open>getUsers\<close> throws. Registering on such a
  store ends in the uncaught SyntaxError where the empty store lets it succeed.
\<close>

theorem corrupt_store_is_fatal:
  "getUsers corrupt_storage = Inl SyntaxError \<and>
   registerForm_onsubmit (js ''t1'') (1 / 2) (js ''alice'') (js ''pw'') (js ''pw'')
     corrupt_storage = (Uncaught SyntaxError, corrupt_storage) \<and>
   fst (registerForm_onsubmit (js ''t1'') (1 / 2) (js ''alice'') (js ''pw'') (js ''pw'')
          empty_storage) = Done ''dashboard.html''"
  by (simp add: registerForm_onsubmit_def sample_simps storage_simps)

text \<open>
  C2 as the script has it: only the empty string (falsy, so replaced by \<open>'{}'\<close>) is
  read as the empty store. With any other unparseable string \<open>getUsers\<close> throws
  SyntaxError, and register (with matching passwords), login, the load of the dashboard
  (with a session) and the admin listing (with the admin password) end in that exception,
  localStorage unchanged. A transfer works on the object the dashboard read when it loaded,
  so it is not reached with such a store.
\<close>

theorem unparseable_users_item:
  "bank_users ls = Some (Unparseable s) \<Longrightarrow>
   (s = [] \<longrightarrow> getUsers ls = Inr []) \<and>
   (s \<noteq> [] \<longrightarrow>
      getUsers ls = Inl SyntaxError \<and>
      registerForm_onsubmit now random username pass pass ls = (Uncaught SyntaxError, ls) \<and>
      loginForm_onsubmit username pass ls = (Uncaught SyntaxError, ls) \<and>
      (getSession ls = Inr (Some name) \<and> name \<noteq> [] \<longrightarrow>
         dashboard_load ls = Uncaught SyntaxError) \<and>
      adminForm_onsubmit ADMIN_PASSWORD ls = (Uncaught SyntaxError, ls))"
  by (simp add: getUsers_def registerForm_onsubmit_def loginForm_onsubmit_def
      dashboard_load_def adminForm_onsubmit_def)

theorem unparseable_users_item_witness:
  "bank_users blank_storage = Some (Unparseable []) \<and> getUsers blank_storage = Inr [] \<and>
   bank_users corrupt_session = Some (Unparseable (js ''{oops'')) \<and> js ''{oops'' \<noteq> [] \<and>
   getSession corrupt_session = Inr (Some (js ''alice'')) \<and> js ''alice'' \<noteq> [] \<and>
   getUsers corrupt_session = Inl SyntaxError \<and>
   registerForm_onsubmit (js ''t1'') (1 / 2) (js ''alice'') (js ''pw'') (js ''pw'')
     corrupt_session = (Uncaught SyntaxError, corrupt_session) \<and>
   loginForm_onsubmit (js ''alice'') (js ''pw'') corrupt_session =
     (Uncaught SyntaxError, corrupt_session) \<and>
   dashboard_load corrupt_session = Uncaught SyntaxError \<and>
   adminForm_onsubmit ADMIN_PASSWORD corrupt_session = (Uncaught SyntaxError, corrupt_session)"
proof -
  have b: "bank_users blank_storage = Some (Unparseable [])"
    by (simp add: blank_storage_def)
  have c: "bank_users corrupt_session = Some (Unparseable (js ''{oops''))"
    by (simp add: corrupt_session_def)
  have n: "js ''{oops'' \<noteq> []" "js ''alice'' \<noteq> []"
    by (simp_all add: js_def)
  have s: "getSession corrupt_session = Inr (Some (js ''alice''))"
    by (simp add: getSession_def corrupt_session_def)
  show ?thesis
    using b c n s
      unparseable_users_item [OF b]
      unparseable_users_item [OF c, where name = "js ''alice''" and now = "js ''t1''"
        and random = "1 / 2" and username = "js ''alice''" and pass = "js ''pw''"]
    by simp
qed

text \<open>
  C3: a sequence of transfers that pass all checks leaves the sum of all balances as it
  was. For recipients that are keys of the users object this is
  \<open>transfers_keep_total\<close>. With the transfer to \<open>constructor\<close> of C7 first,
  the page keeps the debited sender, and the next transfer, of 5 to bob, passes the checks
  and writes that object: the stored balances go from 1000 and 2000 to 985 and 2005, and
  their sum from 3000 to 2990.
\<close>

theorem transfers_lose_money:
  "dashboard_load sample_storage =
     Done (Inr (\<lparr>user_name = js ''alice'', account_balance = 1000,
                  transaction_list =
                    [(js ''1/1/2026, 9:00:00 AM'', CHR ''+'', 1000, js ''Initial deposit'')]\<rparr>,
                sample_dashboard)) \<and>
   passes_checks sample_dashboard (js ''constructor'') (Fin 10) \<and>
   passes_checks
     (fst (snd (transferForm_onsubmit (js ''t1'') (js ''constructor'') (Fin 10)
                  sample_dashboard sample_storage)))
     (js ''bob'') (Fin 5) \<and>
   map_sum id total (getUsers sample_storage) = Inr 3000 \<and>
   map_sum id total
     (getUsers (snd (transfers [(js ''t1'', js ''constructor'', Fin 10),
                                (js ''t2'', js ''bob'', Fin 5)]
                       sample_dashboard sample_storage))) = Inr 2990 \<and>
   fst (adminForm_onsubmit ADMIN_PASSWORD
          (snd (transfers [(js ''t1'', js ''constructor'', Fin 10),
                           (js ''t2'', js ''bob'', Fin 5)]
                  sample_dashboard sample_storage))) =
     Done [(js ''alice'', 985), (js ''bob'', 2005)]"
  by (simp add: transfer_simps sample_simps storage_simps dashboard_load_def total_def
      adminForm_onsubmit_def li_def)

text \<open>
  C4: a transfer to a recipient that passes the first two checks (it is found, and it is
  not the sender) with an amount that is \<open><= 0\<close> or not a number shows the
  invalid-amount message; the users object of the page and localStorage, so every balance
  and every transactions list, are unchanged.
\<close>

theorem transfer_invalid_amount:
  "\<not> recipient_not_found d to \<Longrightarrow> \<not> self_transfer d to \<Longrightarrow>
   js_le amt (Fin 0) \<or> isNaN amt \<Longrightarrow>
   transferForm_onsubmit now to amt d ls = (Message ''Invalid amount.'', d, ls)"
  by (simp add: transferForm_onsubmit_def invalid_amount_def)

theorem transfer_invalid_amount_witness:
  "\<not> recipient_not_found sample_dashboard (js ''bob'') \<and>
   \<not> self_transfer sample_dashboard (js ''bob'') \<and>
   js_le (Fin (- 5)) (Fin 0) \<and> js_le (Fin 0) (Fin 0) \<and> isNaN NaN \<and>
   transferForm_onsubmit (js ''t1'') (js ''bob'') (Fin (- 5)) sample_dashboard sample_storage =
     (Message ''Invalid amount.'', sample_dashboard, sample_storage) \<and>
   transferForm_onsubmit (js ''t1'') (js ''bob'') (Fin 0) sample_dashboard sample_storage =
     (Message ''Invalid amount.'', sample_dashboard, sample_storage) \<and>
   transferForm_onsubmit (js ''t1'') (js ''bob'') NaN sample_dashboard sample_storage =
     (Message ''Invalid amount.'', sample_dashboard, sample_storage)"
proof -
  have a: "js_le (Fin (- 5)) (Fin 0) \<or> isNaN (Fin (- 5))"
    and b: "js_le (Fin 0) (Fin 0) \<or> isNaN (Fin 0)"
    and c: "js_le NaN (Fin 0) \<or> isNaN NaN"
    by (simp_all add: js_le_def isNaN_def)
  have d: "js_le (Fin (- 5)) (Fin 0) \<and> js_le (Fin 0) (Fin 0) \<and> isNaN NaN"
    by (simp add: js_le_def isNaN_def)
  show ?thesis
    using sample_bob_known d
      transfer_invalid_amount [OF sample_bob_known a]
      transfer_invalid_amount [OF sample_bob_known b]
      transfer_invalid_amount [OF sample_bob_known c]
    by simp
qed

text \<open>
  C5: registering a username that is a key of the stored users object, with matching
  passwords, shows the duplicate message and leaves localStorage (users and session) as it
  was; so after a successful registration a second one under the same username fails.
\<close>

theorem register_duplicate_fails:
  "(getUsers ls = Inr us \<and> map_of us username = Some u \<longrightarrow>
      registerForm_onsubmit now random username pass pass ls =
        (Message ''Username already exists.'', ls)) \<and>
   (registerForm_onsubmit now random username pass pass ls = (Done page, ls') \<longrightarrow>
      registerForm_onsubmit now' random' username pass' pass' ls' =
        (Message ''Username already exists.'', ls'))"
proof (intro conjI impI)
  assume "getUsers ls = Inr us \<and> map_of us username = Some u"
  then show "registerForm_onsubmit now random username pass pass ls =
        (Message ''Username already exists.'', ls)"
    by (simp add: registerForm_onsubmit_def lookup_def)
next
  assume "registerForm_onsubmit now random username pass pass ls = (Done page, ls')"
  from register_Done [OF this] obtain us v where
    ls': "ls' = setSession username (setUsers (AList.update username v us) ls)"
    by blast
  have "getUsers ls' = Inr (AList.update username v us)"
    by (simp add: ls' getUsers_setSession getUsers_setUsers)
  then show "registerForm_onsubmit now' random' username pass' pass' ls' =
        (Message ''Username already exists.'', ls')"
    by (simp add: registerForm_onsubmit_def lookup_update_same)
qed

theorem register_duplicate_fails_witness:
  "getUsers sample_storage = Inr sample_users \<and>
   map_of sample_users (js ''bob'') \<noteq> None \<and>
   registerForm_onsubmit (js ''t1'') (1 / 2) (js ''bob'') (js ''x'') (js ''x'') sample_storage =
     (Message ''Username already exists.'', sample_storage) \<and>
   fst (registerForm_onsubmit (js ''t1'') (1 / 2) (js ''carol'') (js ''pw'') (js ''pw'')
          sample_storage) = Done ''dashboard.html'' \<and>
   fst (registerForm_onsubmit (js ''t2'') (1 / 3) (js ''carol'') (js ''x'') (js ''x'')
          (snd (registerForm_onsubmit (js ''t1'') (1 / 2) (js ''carol'') (js ''pw'')
                  (js ''pw'') sample_storage))) = Message ''Username already exists.''"
proof -
  let ?reg = "registerForm_onsubmit (js ''t1'') (1 / 2) (js ''carol'') (js ''pw'')
                (js ''pw'') sample_storage"
  have g: "getUsers sample_storage = Inr sample_users"
    by (simp add: getUsers_def sample_storage_def)
  have m: "map_of sample_users (js ''bob'') = Some (snd (sample_users ! 1))"
    by (simp add: sample_users_def js_def)
  have rf: "fst ?reg = Done ''dashboard.html''"
    by (simp add: registerForm_onsubmit_def sample_simps storage_simps)
  then have r: "?reg = (Done ''dashboard.html'', snd ?reg)"
    by (metis prod.collapse)
  note inst1 = register_duplicate_fails [where ls = sample_storage and us = sample_users
      and username = "js ''bob''" and u = "snd (sample_users ! 1)" and now = "js ''t1''"
      and random = "1 / 2" and pass = "js ''x''"]
  from inst1 g m
  have one: "registerForm_onsubmit (js ''t1'') (1 / 2) (js ''bob'') (js ''x'') (js ''x'')
      sample_storage = (Message ''Username already exists.'', sample_storage)"
    by blast
  note inst2 = register_duplicate_fails [where ls = sample_storage
      and username = "js ''carol''" and now = "js ''t1''" and random = "1 / 2"
      and pass = "js ''pw''" and page = "''dashboard.html''" and ls' = "snd ?reg"
      and now' = "js ''t2''" and random' = "1 / 3" and pass' = "js ''x''"]
  from inst2 r
  have two: "registerForm_onsubmit (js ''t2'') (1 / 3) (js ''carol'') (js ''x'') (js ''x'')
      (snd ?reg) = (Message ''Username already exists.'', snd ?reg)"
    by blast
  show ?thesis
    using g m rf one two by simp
qed

text \<open>
  C6: after a successful registration with a password, a login with that username and
  password succeeds and the session is that username (whatever the session was in
  between); and a login with a password whose \<open>btoa\<close> encoding differs from the stored
  one shows the message and leaves localStorage, so also the session, as it was.
\<close>

theorem login_after_register:
  "(registerForm_onsubmit now random username pass pass ls = (Done page, ls') \<and>
    bank_users ls'' = bank_users ls' \<longrightarrow>
      loginForm_onsubmit username pass ls'' =
        (Done ''dashboard.html'', setSession username ls'') \<and>
      getSession (setSession username ls'') = Inr (Some username)) \<and>
   (getUsers st = Inr us \<and> map_of us name = Some u \<and> btoa pass' = Inr enc \<and>
    enc \<noteq> password u \<longrightarrow>
      loginForm_onsubmit name pass' st = (Message ''Invalid username or password.'', st))"
proof (intro conjI impI)
  assume a: "registerForm_onsubmit now random username pass pass ls = (Done page, ls') \<and>
    bank_users ls'' = bank_users ls'"
  from register_Done [of now random username pass pass ls page ls'] a
  obtain us0 enc0 where enc0: "btoa pass = Inr enc0"
    and ls': "ls' = setSession username (setUsers (AList.update username
             \<lparr>password = enc0, balance = 1000 + of_int \<lfloor>random * 9000\<rfloor>,
              transactions = [\<lparr>type = js ''credit'', amount = 1000, date = now,
                               desc = js ''Initial deposit''\<rparr>]\<rparr> us0) ls)"
    by blast
  have "getUsers ls'' = getUsers ls'"
    using a by (simp add: getUsers_def)
  then have "getUsers ls'' = Inr (AList.update username
             \<lparr>password = enc0, balance = 1000 + of_int \<lfloor>random * 9000\<rfloor>,
              transactions = [\<lparr>type = js ''credit'', amount = 1000, date = now,
                               desc = js ''Initial deposit''\<rparr>]\<rparr> us0)"
    by (simp add: ls' getUsers_setSession getUsers_setUsers)
  then show "loginForm_onsubmit username pass ls'' =
      (Done ''dashboard.html'', setSession username ls'')"
    by (simp add: loginForm_onsubmit_def lookup_update_same enc0)
  show "getSession (setSession username ls'') = Inr (Some username)"
    by (rule getSession_setSession)
next
  assume "getUsers st = Inr us \<and> map_of us name = Some u \<and> btoa pass' = Inr enc \<and>
    enc \<noteq> password u"
  then show "loginForm_onsubmit name pass' st =
      (Message ''Invalid username or password.'', st)"
    by (auto simp add: loginForm_onsubmit_def lookup_Some)
qed

theorem login_after_register_witness:
  "fst (registerForm_onsubmit (js ''t1'') (1 / 2) (js ''alice'') (js ''pw'') (js ''pw'')
          empty_storage) = Done ''dashboard.html'' \<and>
   loginForm_onsubmit (js ''alice'') (js ''pw'')
     (clearSession (snd (registerForm_onsubmit (js ''t1'') (1 / 2) (js ''alice'') (js ''pw'')
                           (js ''pw'') empty_storage))) =
     (Done ''dashboard.html'',
      snd (registerForm_onsubmit (js ''t1'') (1 / 2) (js ''alice'') (js ''pw'') (js ''pw'')
             empty_storage)) \<and>
   getSession (snd (registerForm_onsubmit (js ''t1'') (1 / 2) (js ''alice'') (js ''pw'')
                      (js ''pw'') empty_storage)) = Inr (Some (js ''alice'')) \<and>
   btoa (js ''pwx'') = Inr (js ''cHd4'') \<and>
   loginForm_onsubmit (js ''alice'') (js ''pwx'') sample_storage =
     (Message ''Invalid username or password.'', sample_storage)"
proof -
  let ?reg = "registerForm_onsubmit (js ''t1'') (1 / 2) (js ''alice'') (js ''pw'')
                (js ''pw'') empty_storage"
  have rf: "fst ?reg = Done ''dashboard.html''"
    by (simp add: registerForm_onsubmit_def sample_simps storage_simps)
  then have r: "?reg = (Done ''dashboard.html'', snd ?reg)"
    by (metis prod.collapse)
  have b: "bank_users (clearSession (snd ?reg)) = bank_users (snd ?reg)"
    by (simp add: clearSession_def)
  have s: "setSession (js ''alice'') (clearSession (snd ?reg)) = snd ?reg"
    by (simp add: registerForm_onsubmit_def sample_simps storage_simps)
  have g: "getUsers sample_storage = Inr sample_users"
    by (simp add: getUsers_def sample_storage_def)
  have m: "map_of sample_users (js ''alice'') = Some (snd (hd sample_users))"
    by (simp add: sample_users_def)
  have e: "btoa (js ''pwx'') = Inr (js ''cHd4'')"
    by (simp add: sample_simps)
  have n: "js ''cHd4'' \<noteq> password (snd (hd sample_users))"
    by (simp add: sample_simps)
  note inst = login_after_register [where now = "js ''t1''" and random = "1 / 2"
      and username = "js ''alice''" and pass = "js ''pw''" and ls = empty_storage
      and page = "''dashboard.html''" and ls' = "snd ?reg"
      and ls'' = "clearSession (snd ?reg)"
      and st = sample_storage and us = sample_users and name = "js ''alice''"
      and u = "snd (hd sample_users)" and pass' = "js ''pwx''" and enc = "js ''cHd4''"]
  from inst r b
  have one: "loginForm_onsubmit (js ''alice'') (js ''pw'') (clearSession (snd ?reg)) =
      (Done ''dashboard.html'', setSession (js ''alice'') (clearSession (snd ?reg)))"
    and two: "getSession (setSession (js ''alice'') (clearSession (snd ?reg))) =
      Inr (Some (js ''alice''))"
    by blast+
  from inst g m e n
  have three: "loginForm_onsubmit (js ''alice'') (js ''pwx'') sample_storage =
      (Message ''Invalid username or password.'', sample_storage)"
    by blast
  show ?thesis
    using rf one two three e by (simp add: s)
qed

text \<open>
  C7: a transfer that passes all checks debits the sender, credits the recipient, appends
  the paired debit and credit with one date string and writes the store, with no partial
  state. For a recipient that is a key of the users object this is
  \<open>transfer_stored_recipient\<close>. But the first check accepts every truthy
  \<open>users[to]\<close>, also what \<open>Object.prototype\<close> provides: a transfer of 10 to
  \<open>constructor\<close>, which is no user, from the dashboard as it loads for alice passes
  the four checks, debits the sender's record of the page and appends the debit to it, and
  then throws TypeError at line 117,
  before \<open>setUsers\<close>: nobody is credited, localStorage is unchanged, and the page
  keeps the half-done state.
\<close>

theorem transfer_to_prototype_name:
  "dashboard_load sample_storage =
     Done (Inr (\<lparr>user_name = js ''alice'', account_balance = 1000,
                  transaction_list =
                    [(js ''1/1/2026, 9:00:00 AM'', CHR ''+'', 1000, js ''Initial deposit'')]\<rparr>,
                sample_dashboard)) \<and>
   map_of sample_users (js ''constructor'') = None \<and>
   passes_checks sample_dashboard (js ''constructor'') (Fin 10) \<and>
   transferForm_onsubmit (js ''t1'') (js ''constructor'') (Fin 10) sample_dashboard
     sample_storage =
     (Uncaught TypeError,
      \<lparr>session = js ''alice'',
       users =
         [(js ''alice'',
           \<lparr>password = js ''cHc='', balance = 990,
            transactions =
              [deposit (js ''1/1/2026, 9:00:00 AM''),
               \<lparr>type = js ''debit'', amount = 10, date = js ''t1'',
                desc = js ''Transfer to constructor''\<rparr>]\<rparr>),
          (js ''bob'',
           \<lparr>password = js ''cHc='', balance = 2000,
            transactions = [deposit (js ''1/2/2026, 9:00:00 AM'')]\<rparr>)]\<rparr>,
      sample_storage)"
  by (simp add: transfer_simps sample_simps storage_simps dashboard_load_def li_def)

text \<open>
  C8: no operation removes or reorders a stored transaction. Registration, login, logout
  and the admin listing leave every stored list a prefix of what is stored afterwards; the
  dashboard shows a reversed copy and keeps the users object as it was read; a transfer
  only appends, in the users object of the page and in what it writes to localStorage
  (the page's object being the stored one or ahead of it).
\<close>

theorem transactions_only_appended:
  "getUsers ls = Inr us \<Longrightarrow>
   (\<exists>us'. getUsers (snd (registerForm_onsubmit now random username pass confirm ls)) = Inr us' \<and>
      append_only us us') \<and>
   getUsers (snd (loginForm_onsubmit username pass ls)) = Inr us \<and>
   getUsers (snd (logout_btn_onclick ls)) = Inr us \<and>
   getUsers (snd (adminForm_onsubmit pass ls)) = Inr us \<and>
   (\<forall>r d. dashboard_load ls = Done (Inr (r, d)) \<longrightarrow>
      users d = us \<and>
      (\<exists>u. map_of us (session d) = Some u \<and>
         transaction_list r = map li (rev (transactions u)))) \<and>
   (append_only us (users d) \<longrightarrow>
      append_only (users d) (users (fst (snd (transferForm_onsubmit now to amt d ls)))) \<and>
      (\<exists>us'. getUsers (snd (snd (transferForm_onsubmit now to amt d ls))) = Inr us' \<and>
         append_only us us' \<and>
         append_only us' (users (fst (snd (transferForm_onsubmit now to amt d ls))))))"
proof (intro conjI allI impI)
  assume g: "getUsers ls = Inr us"
  from register_storage_cases [OF g, of now random username pass confirm]
  show "\<exists>us'. getUsers (snd (registerForm_onsubmit now random username pass confirm ls)) =
      Inr us' \<and> append_only us us'"
  proof
    assume "snd (registerForm_onsubmit now random username pass confirm ls) = ls"
    with g show ?thesis
      by (simp add: append_only_refl)
  next
    assume "\<exists>v. map_of us username = None \<and>
      snd (registerForm_onsubmit now random username pass confirm ls) =
        setSession username (setUsers (AList.update username v us) ls)"
    then show ?thesis
      by (auto simp add: getUsers_setSession getUsers_setUsers append_only_update)
  qed
  from login_storage_cases [of username pass ls] g
  show "getUsers (snd (loginForm_onsubmit username pass ls)) = Inr us"
    by (auto simp add: getUsers_setSession)
  from g show "getUsers (snd (logout_btn_onclick ls)) = Inr us"
    by (simp add: logout_btn_onclick_def getUsers_def clearSession_def)
  from g show "getUsers (snd (adminForm_onsubmit pass ls)) = Inr us"
    by (simp add: adminForm_onsubmit_def)
  {
    fix r d
    assume "dashboard_load ls = Done (Inr (r, d))"
    from dashboard_load_Done [OF this] g
    show "users d = us"
      and "\<exists>u. map_of us (session d) = Some u \<and>
         transaction_list r = map li (rev (transactions u))"
      by auto
  }
  {
    let ?d' = "fst (snd (transferForm_onsubmit now to amt d ls))"
    let ?ls' = "snd (snd (transferForm_onsubmit now to amt d ls))"
    assume a: "append_only us (users d)"
    show step: "append_only (users d) (users ?d')"
      by (rule transfer_append_only)
    from transfer_storage_cases [of now to amt d ls]
    show "\<exists>us'. getUsers ?ls' = Inr us' \<and> append_only us us' \<and> append_only us' (users ?d')"
    proof
      assume "?ls' = ls"
      with g a step show ?thesis
        by (auto intro: append_only_refl append_only_trans)
    next
      assume "?ls' = setUsers (users ?d') ls"
      then have "getUsers ?ls' = Inr (users ?d')"
        by (simp add: getUsers_setUsers)
      with a step show ?thesis
        by (auto intro: append_only_refl append_only_trans)
    qed
  }
qed

theorem transactions_only_appended_witness:
  "getUsers sample_storage = Inr sample_users \<and>
   append_only sample_users (users sample_dashboard) \<and>
   (\<exists>us'. getUsers (snd (registerForm_onsubmit (js ''t1'') (1 / 2) (js ''carol'') (js ''pw'')
                            (js ''pw'') sample_storage)) = Inr us' \<and>
      append_only sample_users us') \<and>
   getUsers (snd (loginForm_onsubmit (js ''carol'') (js ''pw'') sample_storage)) =
     Inr sample_users \<and>
   (\<exists>r. dashboard_load sample_storage = Done (Inr (r, sample_dashboard)) \<and>
      transaction_list r = map li (rev (transactions (snd (hd sample_users))))) \<and>
   append_only sample_users
     (users (fst (snd (transferForm_onsubmit (js ''t1'') (js ''bob'') (Fin 10)
                         sample_dashboard sample_storage)))) \<and>
   (\<exists>us'. getUsers (snd (snd (transferForm_onsubmit (js ''t1'') (js ''bob'') (Fin 10)
                                  sample_dashboard sample_storage))) = Inr us' \<and>
      append_only sample_users us')"
proof -
  note inst = transactions_only_appended [OF sample_facts(1), where now = "js ''t1''"
      and random = "1 / 2" and username = "js ''carol''" and pass = "js ''pw''"
      and confirm = "js ''pw''" and d = sample_dashboard and to = "js ''bob''"
      and amt = "Fin 10"]
  have a: "append_only sample_users (users sample_dashboard)"
    by (simp add: sample_facts(4) append_only_refl)
  have l: "dashboard_load sample_storage =
      Done (Inr (\<lparr>user_name = js ''alice'', account_balance = 1000,
                   transaction_list = map li (rev (transactions (snd (hd sample_users))))\<rparr>,
                 sample_dashboard))"
    by (simp add: dashboard_load_def sample_simps storage_simps)
  show ?thesis
    using inst a l sample_facts(1,4) by auto
qed

text \<open>
  C9: no operation ever ends in an uncaught exception. It does: \<open>btoa\<close> throws on a
  password with a code unit above 255 (here U+263A), and nothing catches it.
\<close>

theorem register_btoa_throws:
  "registerForm_onsubmit (js ''t1'') (1 / 2) (js ''alice'') [0x263A] [0x263A] empty_storage =
     (Uncaught InvalidCharacterError, empty_storage)"
  by (simp add: registerForm_onsubmit_def sample_simps storage_simps)

text \<open>
  C9 as the script has it: no operation ends in an uncaught exception when the users item
  is readable (\<open>getUsers\<close> returns), the password has no code unit above 255, the
  session that the dashboard loads with is null, empty or a key of the users object, and
  the recipient of a transfer from a loaded dashboard is not a name that the users object
  only inherits.
\<close>

theorem no_uncaught_exception:
  "getUsers ls = Inr us \<Longrightarrow> \<not> list_ex (\<lambda>c. 255 < c) pass \<Longrightarrow>
   (\<forall>e. fst (registerForm_onsubmit now random username pass confirm ls) \<noteq> Uncaught e) \<and>
   (\<forall>e. fst (loginForm_onsubmit username pass ls) \<noteq> Uncaught e) \<and>
   (\<forall>e. fst (adminForm_onsubmit pass ls) \<noteq> Uncaught e) \<and>
   (\<forall>e. fst (logout_btn_onclick ls) \<noteq> Uncaught e) \<and>
   (getSession ls = Inr None \<or> getSession ls = Inr (Some []) \<or>
    (\<exists>u. getSession ls = Inr (Some name) \<and> map_of us name = Some u) \<longrightarrow>
      (\<forall>e. dashboard_load ls \<noteq> Uncaught e)) \<and>
   (map_of (users d) (session d) = Some sender \<and> lookup (users d) to \<noteq> Inherited \<longrightarrow>
      (\<forall>e. fst (transferForm_onsubmit now to amt d st) \<noteq> Uncaught e))"
proof (intro conjI impI allI)
  assume g: "getUsers ls = Inr us" and p: "\<not> list_ex (\<lambda>c. 255 < c) pass"
  from btoa_Latin1 [OF p] obtain enc where enc: "btoa pass = Inr enc" ..
  fix e
  show "fst (registerForm_onsubmit now random username pass confirm ls) \<noteq> Uncaught e"
    using enc by (auto simp add: registerForm_onsubmit_def g)
  show "fst (loginForm_onsubmit username pass ls) \<noteq> Uncaught e"
    by (simp add: loginForm_onsubmit_def g enc split: property.splits)
  show "fst (adminForm_onsubmit pass ls) \<noteq> Uncaught e"
    by (simp add: adminForm_onsubmit_def g)
  show "fst (logout_btn_onclick ls) \<noteq> Uncaught e"
    by (simp add: logout_btn_onclick_def)
  {
    assume "getSession ls = Inr None \<or> getSession ls = Inr (Some []) \<or>
      (\<exists>u. getSession ls = Inr (Some name) \<and> map_of us name = Some u)"
    then show "dashboard_load ls \<noteq> Uncaught e"
      by (auto simp add: dashboard_load_def g lookup_Some split: if_splits)
  }
  {
    assume a: "map_of (users d) (session d) = Some sender \<and> lookup (users d) to \<noteq> Inherited"
    show "fst (transferForm_onsubmit now to amt d st) \<noteq> Uncaught e"
    proof (cases "map_of (users d) to")
      case None
      with a have "lookup (users d) to = Undefined"
        by (simp add: lookup_def split: if_splits)
      then show ?thesis
        by (simp add: transferForm_onsubmit_def recipient_not_found_def)
    next
      case (Some recipient)
      show ?thesis
      proof (cases "to = session d \<or> invalid_amount amt \<or> insufficient_funds sender amt")
        case True
        with a Some show ?thesis
          by (auto simp add: transferForm_onsubmit_def self_transfer_def lookup_Some)
      next
        case False
        with a Some transfer_stored_recipient [of d sender to recipient amt now st]
        show ?thesis by auto
      qed
    qed
  }
qed

theorem no_uncaught_exception_witness:
  "getUsers sample_storage = Inr sample_users \<and>
   \<not> list_ex (\<lambda>c. 255 < c) (js ''pw'') \<and>
   getSession sample_storage = Inr (Some (js ''alice'')) \<and>
   map_of sample_users (js ''alice'') \<noteq> None \<and>
   lookup sample_users (js ''bob'') \<noteq> Inherited \<and>
   (\<forall>e. fst (registerForm_onsubmit (js ''t1'') (1 / 2) (js ''carol'') (js ''pw'') (js ''pw'')
               sample_storage) \<noteq> Uncaught e) \<and>
   (\<forall>e. fst (loginForm_onsubmit (js ''alice'') (js ''pw'') sample_storage) \<noteq> Uncaught e) \<and>
   (\<forall>e. fst (adminForm_onsubmit (js ''pw'') sample_storage) \<noteq> Uncaught e) \<and>
   (\<forall>e. dashboard_load sample_storage \<noteq> Uncaught e) \<and>
   (\<forall>e. fst (transferForm_onsubmit (js ''t1'') (js ''bob'') (Fin 10) sample_dashboard
               sample_storage) \<noteq> Uncaught e)"
proof -
  note inst = no_uncaught_exception [OF sample_facts(1) sample_facts(7),
      where now = "js ''t1''" and random = "1 / 2" and username = "js ''carol''"
      and confirm = "js ''pw''" and name = "js ''alice''" and d = sample_dashboard
      and sender = "snd (hd sample_users)" and to = "js ''bob''" and amt = "Fin 10"
      and st = sample_storage]
  have l: "\<forall>e. fst (loginForm_onsubmit (js ''alice'') (js ''pw'') sample_storage) \<noteq> Uncaught e"
    using no_uncaught_exception [OF sample_facts(1) sample_facts(7),
      where username = "js ''alice''"] by blast
  show ?thesis
    using inst l sample_facts by simp
qed

text \<open>
  C10: a username that the users object does not hold but \<open>Object.prototype\<close> provides,
  such as \<open>constructor\<close> or \<open>toString\<close>, is refused by register with the
  duplicate message, with localStorage unchanged.
\<close>

theorem register_prototype_name:
  "getUsers ls = Inr us \<Longrightarrow> map_of us username = None \<Longrightarrow>
   username \<in> set Object_prototype \<Longrightarrow>
   registerForm_onsubmit now random username pass pass ls =
     (Message ''Username already exists.'', ls)"
  by (simp add: registerForm_onsubmit_def lookup_def)

theorem register_prototype_name_witness:
  "getUsers empty_storage = Inr [] \<and>
   js ''constructor'' \<in> set Object_prototype \<and> js ''toString'' \<in> set Object_prototype \<and>
   registerForm_onsubmit (js ''t1'') (1 / 2) (js ''constructor'') (js ''pw'') (js ''pw'')
     empty_storage = (Message ''Username already exists.'', empty_storage) \<and>
   registerForm_onsubmit (js ''t1'') (1 / 2) (js ''toString'') (js ''pw'') (js ''pw'')
     empty_storage = (Message ''Username already exists.'', empty_storage)"
proof -
  have g: "getUsers empty_storage = Inr []"
    by (simp add: getUsers_def empty_storage_def)
  have c: "js ''constructor'' \<in> set Object_prototype"
    by (simp add: Object_prototype_def)
  have t: "js ''toString'' \<in> set Object_prototype"
    by (simp add: Object_prototype_def)
  have m: "map_of ([] :: users) name = None" for name
    by simp
  show ?thesis
    using g c t register_prototype_name [OF g m c] register_prototype_name [OF g m t]
    by simp
qed

end
